theory Spec2Isabelle
  imports Main "HOL-Library.Word"
begin

section \<open>JavaScript values, objects and the heap\<close>

text \<open>
  The record utilities work on plain JavaScript objects: decoded sync records whose
  payloads are nested objects. Objects are mutable and are passed by reference, so the
  model keeps them in a heap: a value is a primitive or a reference into the heap, and an
  object is the list of its own enumerable properties in insertion order.

  The fragment of the language that is modelled: \<open>undefined\<close>, \<open>null\<close>, booleans, integer
  numbers, strings and references to plain data objects. Properties inherited from
  \<open>Object.prototype\<close>, accessors, fractional numbers and \<open>NaN\<close> are outside it.
\<close>

type_synonym addr = nat

datatype jsval =
    JUndefined
  | JNull
  | JBool bool
  | JNum int
  | JStr string
  | JRef addr

type_synonym jsobj = "(string \<times> jsval) list"

type_synonym heap = "jsobj list"

text \<open>The messages written with \<open>console.log\<close>, with the values interpolated into them.\<close>

datatype diag =
    Ignoring jsval jsval          \<comment> \<open>\<open>Ignoring ${record.action} of object ${record.objectId}.\<close>\<close>
  | InvalidObjectData jsval       \<comment> \<open>\<open>Warning: invalid objectData ${record.objectData}\<close>\<close>

text \<open>The exceptions the record utilities raise, and the language's own \<open>TypeError\<close>.\<close>

datatype error =
    MissingSyncRecordJS           \<comment> \<open>\<open>Missing syncRecord JS object.\<close>\<close>
  | InvalidRecordAction jsval     \<comment> \<open>\<open>Invalid record action: ${record.action}\<close>\<close>
  | MissingUpdateSyncRecord       \<comment> \<open>\<open>Missing UPDATE syncRecord.\<close>\<close>
  | RecordMissing string          \<comment> \<open>\<open>Record missing ${type}\<close>\<close>
  | RequiredArgs                  \<comment> \<open>\<open>type, isValidRecord, mapUpdateToCreate are required args\<close>\<close>
  | TypeError

text \<open>
  The world a call runs in: the heap, the console, and the wall clock. \<open>clock w i\<close> is what
  the \<open>i\<close>-th call of \<open>Date.now()\<close> returns, and \<open>ticks\<close> counts the calls made so far.
\<close>

record world =
  heap :: heap
  console :: "diag list"
  clock :: "nat \<Rightarrow> int"
  ticks :: nat

definition bind_res :: "error + 'a \<Rightarrow> ('a \<Rightarrow> error + 'b) \<Rightarrow> error + 'b" where
  "bind_res r f = (case r of Inl e \<Rightarrow> Inl e | Inr x \<Rightarrow> f x)"

subsection \<open>Truthiness, property keys, numbers\<close>

fun truthy :: "jsval \<Rightarrow> bool" where
  "truthy JUndefined = False"
| "truthy JNull = False"
| "truthy (JBool b) = b"
| "truthy (JNum n) = (n \<noteq> 0)"
| "truthy (JStr s) = (s \<noteq> [])"
| "truthy (JRef a) = True"

definition digit_char :: "nat \<Rightarrow> char" where
  "digit_char d = ''0123456789'' ! d"

fun show_nat :: "nat \<Rightarrow> string" where
  "show_nat n = (if n < 10 then [digit_char n] else show_nat (n div 10) @ [digit_char (n mod 10)])"

declare show_nat.simps [simp del]

definition show_int :: "int \<Rightarrow> string" where
  "show_int i = (if i < 0 then CHR ''-'' # show_nat (nat (- i)) else show_nat (nat i))"

text \<open>\<open>ToString\<close>, as a computed property key \<open>o[v]\<close> applies it to \<open>v\<close>.\<close>

fun to_key :: "jsval \<Rightarrow> string" where
  "to_key JUndefined = ''undefined''"
| "to_key JNull = ''null''"
| "to_key (JBool b) = (if b then ''true'' else ''false'')"
| "to_key (JNum n) = show_int n"
| "to_key (JStr s) = s"
| "to_key (JRef a) = ''[object Object]''"

text \<open>
  \<open>ToNumber\<close>, with \<open>None\<close> for \<open>NaN\<close>. A string converts when it is empty or a run of
  decimal digits; signs, blanks, fractions, exponents and radix prefixes are not modelled
  and read as \<open>NaN\<close>.
\<close>

definition digit_val :: "char \<Rightarrow> nat option" where
  "digit_val c =
     map_of [(CHR ''0'', 0), (CHR ''1'', 1), (CHR ''2'', 2), (CHR ''3'', 3), (CHR ''4'', 4),
             (CHR ''5'', 5), (CHR ''6'', 6), (CHR ''7'', 7), (CHR ''8'', 8), (CHR ''9'', 9)] c"

fun digits_val :: "nat \<Rightarrow> string \<Rightarrow> nat option" where
  "digits_val acc [] = Some acc"
| "digits_val acc (c # cs) =
     (case digit_val c of None \<Rightarrow> None | Some d \<Rightarrow> digits_val (10 * acc + d) cs)"

fun to_number :: "jsval \<Rightarrow> int option" where
  "to_number JUndefined = None"
| "to_number JNull = Some 0"
| "to_number (JBool b) = Some (if b then 1 else 0)"
| "to_number (JNum n) = Some n"
| "to_number (JStr s) = map_option int (digits_val 0 s)"
| "to_number (JRef a) = None"

text \<open>\<open>v > n\<close> for a number \<open>n\<close>: false when \<open>v\<close> converts to \<open>NaN\<close>.\<close>

definition js_gt :: "jsval \<Rightarrow> int \<Rightarrow> bool" where
  "js_gt v n = (case to_number v of None \<Rightarrow> False | Some m \<Rightarrow> m > n)"

subsection \<open>Reading properties\<close>

definition heap_obj :: "heap \<Rightarrow> addr \<Rightarrow> jsobj" where
  "heap_obj h a = (if a < length h then h ! a else [])"

definition lookup_prop :: "jsobj \<Rightarrow> string \<Rightarrow> jsval" where
  "lookup_prop obj k = (case map_of obj k of None \<Rightarrow> JUndefined | Some v \<Rightarrow> v)"

text \<open>
  \<open>v[k]\<close> and \<open>v.k\<close>. Reading a property of \<open>undefined\<close> or \<open>null\<close> is a \<open>TypeError\<close>. A
  boolean, a number or a string has none of the properties the record utilities read
  (\<open>action\<close>, \<open>objectData\<close>, \<open>objectId\<close>, the payload names, \<open>site\<close>, \<open>location\<close>,
  \<open>customTitle\<close>, \<open>folderId\<close>, \<open>hostPattern\<close>), so the read gives \<open>undefined\<close>.
\<close>

fun get_prop :: "heap \<Rightarrow> jsval \<Rightarrow> string \<Rightarrow> error + jsval" where
  "get_prop h JUndefined k = Inl TypeError"
| "get_prop h JNull k = Inl TypeError"
| "get_prop h (JRef a) k = Inr (lookup_prop (heap_obj h a) k)"
| "get_prop h v k = Inr JUndefined"

text \<open>A chain of reads, \<open>v.k1.k2\<close>: it stops at the first \<open>TypeError\<close>.\<close>

fun get_path :: "heap \<Rightarrow> jsval \<Rightarrow> string list \<Rightarrow> error + jsval" where
  "get_path h v [] = Inr v"
| "get_path h v (k # ks) = bind_res (get_prop h v k) (\<lambda>v'. get_path h v' ks)"

subsection \<open>Creating and updating objects\<close>

text \<open>An object literal: a new object at the next free address.\<close>

definition alloc :: "jsobj \<Rightarrow> world \<Rightarrow> jsval \<times> world" where
  "alloc obj w = (JRef (length (heap w)), w\<lparr>heap := heap w @ [obj]\<rparr>)"

text \<open>\<open>obj[k] = v\<close>: an existing property keeps its place, a new one goes last.\<close>

fun set_prop :: "jsobj \<Rightarrow> string \<Rightarrow> jsval \<Rightarrow> jsobj" where
  "set_prop [] k v = [(k, v)]"
| "set_prop ((k', v') # ps) k v = (if k' = k then (k, v) # ps else (k', v') # set_prop ps k v)"

text \<open>
  The own enumerable properties \<open>Object.assign\<close> copies from a source: those of an object,
  the indexed characters of a string, none of any other primitive.
\<close>

fun own_props :: "heap \<Rightarrow> jsval \<Rightarrow> (string \<times> jsval) list" where
  "own_props h (JRef a) = heap_obj h a"
| "own_props h (JStr s) = map (\<lambda>i. (show_nat i, JStr [s ! i])) [0..<length s]"
| "own_props h v = []"

definition assign_props :: "jsobj \<Rightarrow> (string \<times> jsval) list \<Rightarrow> jsobj" where
  "assign_props obj ps = foldl (\<lambda>acc (k, v). set_prop acc k v) obj ps"

text \<open>One source of \<open>Object.assign\<close>, written into the object at address \<open>t\<close>.\<close>

definition assign_from :: "addr \<Rightarrow> heap \<Rightarrow> jsval \<Rightarrow> heap" where
  "assign_from t h src = h[t := assign_props (heap_obj h t) (own_props h src)]"

text \<open>
  \<open>Object.assign(target, ...sources)\<close>: the sources are copied into the target object
  itself, in order, and the target is returned. A \<open>null\<close> or \<open>undefined\<close> target is a
  \<open>TypeError\<close>; any other primitive target is wrapped in a new object.
\<close>

fun object_assign :: "jsval \<Rightarrow> jsval list \<Rightarrow> world \<Rightarrow> error + (jsval \<times> world)" where
  "object_assign JUndefined srcs w = Inl TypeError"
| "object_assign JNull srcs w = Inl TypeError"
| "object_assign (JRef t) srcs w = Inr (JRef t, w\<lparr>heap := foldl (assign_from t) (heap w) srcs\<rparr>)"
| "object_assign v srcs w =
     (let t = length (heap w)
      in Inr (JRef t, w\<lparr>heap := foldl (assign_from t) (heap w @ [own_props (heap w) v]) srcs\<rparr>))"

text \<open>\<open>Date.now()\<close>: the next reading of the clock.\<close>

definition Date_now :: "world \<Rightarrow> int \<times> world" where
  "Date_now w = (clock w (ticks w), w\<lparr>ticks := Suc (ticks w)\<rparr>)"

definition console_log :: "diag \<Rightarrow> world \<Rightarrow> world" where
  "console_log d w = w\<lparr>console := console w @ [d]\<rparr>"

section \<open>Record utilities\<close>

text \<open>
  Modelled from the spec: the action codes of \<open>constants/proto\<close>, which is not among the
  source files. The spec gives the actions as the enumeration CREATE, UPDATE, DELETE; the
  wire schema numbers them in this order.
\<close>

definition proto_actions_CREATE :: jsval where
  "proto_actions_CREATE = JNum 0"

definition proto_actions_UPDATE :: jsval where
  "proto_actions_UPDATE = JNum 1"

definition proto_actions_DELETE :: jsval where
  "proto_actions_DELETE = JNum 2"

text \<open>
  \<open>CreateFromUpdate(type, isValidRecord, mapUpdateToCreate)\<close> and the function it returns,
  applied to \<open>record\<close>. The two callbacks are always passed, so the guard on the arguments
  comes down to the type name. The last step copies into \<open>record\<close> itself.
\<close>

definition CreateFromUpdate ::
  "string \<Rightarrow> (heap \<Rightarrow> jsval \<Rightarrow> error + jsval) \<Rightarrow> (jsval \<Rightarrow> world \<Rightarrow> error + (jsval \<times> world))
     \<Rightarrow> jsval \<Rightarrow> world \<Rightarrow> error + (jsval \<times> world)" where
  "CreateFromUpdate type isValidRecord mapUpdateToCreate record w =
     (if type = [] then Inl RequiredArgs
      else bind_res (get_prop (heap w) record type) (\<lambda>present.
        if \<not> truthy present then Inl (RecordMissing type)
        else bind_res (isValidRecord (heap w) record) (\<lambda>valid.
          if \<not> truthy valid then Inr (JNull, w)
          else bind_res (get_prop (heap w) record type) (\<lambda>typeProps.
            bind_res (mapUpdateToCreate typeProps w) (\<lambda>(resolvedTypeProps, w1).
              let (props, w2) =
                    alloc [(''action'', proto_actions_CREATE), (type, resolvedTypeProps)] w1
              in object_assign record [props] w2)))))"

definition createSitePropsFromUpdateSite :: "jsval \<Rightarrow> world \<Rightarrow> error + (jsval \<times> world)" where
  "createSitePropsFromUpdateSite site w =
     bind_res (get_prop (heap w) site ''location'') (\<lambda>location.
       let (lastAccessed, w1) = Date_now w;
           (creation, w2) = Date_now w1;
           (defaultProps, w3) =
              alloc [(''title'', JStr []),
                     (''customTitle'', location),
                     (''lastAccessedTime'', JNum lastAccessed),
                     (''creationTime'', JNum creation)] w2;
           (target, w4) = alloc [] w3
       in object_assign target [defaultProps, site] w4)"

text \<open>
  The validity check of a bookmark update. \<open>a && b\<close> is \<open>a\<close> when \<open>a\<close> is falsy and \<open>b\<close>
  otherwise; \<open>a || b\<close> is \<open>a\<close> when \<open>a\<close> is truthy and \<open>b\<close> otherwise.
\<close>

definition isValidRecord_bookmark :: "heap \<Rightarrow> jsval \<Rightarrow> error + jsval" where
  "isValidRecord_bookmark h record =
     bind_res (get_path h record [''bookmark'', ''site'']) (\<lambda>site.
       if \<not> truthy site then Inr site
       else bind_res (get_path h record [''bookmark'', ''site'', ''location'']) (\<lambda>location.
         if truthy location then Inr location
         else bind_res (get_path h record [''bookmark'', ''site'', ''customTitle'']) (\<lambda>customTitle.
           if \<not> truthy customTitle then Inr customTitle
           else bind_res (get_path h record [''bookmark'', ''folderId'']) (\<lambda>folderId.
             if \<not> truthy folderId then Inr folderId
             else Inr (JBool (js_gt folderId 0))))))"

definition mapUpdateToCreate_bookmark :: "jsval \<Rightarrow> world \<Rightarrow> error + (jsval \<times> world)" where
  "mapUpdateToCreate_bookmark bookmark w =
     bind_res (get_prop (heap w) bookmark ''folderId'') (\<lambda>folderId.
       if truthy folderId \<and> js_gt folderId 0
       then (let (target, w1) = alloc [(''isFolder'', JBool True)] w
             in object_assign target [bookmark] w1)
       else (let (defaultProps, w1) = alloc [(''isFolder'', JBool False)] w
             in bind_res (get_prop (heap w1) bookmark ''site'') (\<lambda>bookmarkSite.
                  bind_res (createSitePropsFromUpdateSite bookmarkSite w1) (\<lambda>(site, w2).
                    let (target, w3) = alloc [] w2;
                        (siteProp, w4) = alloc [(''site'', site)] w3
                    in object_assign target [defaultProps, bookmark, siteProp] w4))))"

definition createFromUpdateBookmark :: "jsval \<Rightarrow> world \<Rightarrow> error + (jsval \<times> world)" where
  "createFromUpdateBookmark =
     CreateFromUpdate ''bookmark'' isValidRecord_bookmark mapUpdateToCreate_bookmark"

definition isValidRecord_historySite :: "heap \<Rightarrow> jsval \<Rightarrow> error + jsval" where
  "isValidRecord_historySite h record =
     bind_res (get_path h record [''historySite'', ''location'']) (\<lambda>location.
       Inr (JBool (truthy location)))"

definition createFromUpdateHistorySite :: "jsval \<Rightarrow> world \<Rightarrow> error + (jsval \<times> world)" where
  "createFromUpdateHistorySite =
     CreateFromUpdate ''historySite'' isValidRecord_historySite createSitePropsFromUpdateSite"

definition isValidRecord_siteSetting :: "heap \<Rightarrow> jsval \<Rightarrow> error + jsval" where
  "isValidRecord_siteSetting h record =
     bind_res (get_path h record [''siteSetting'', ''hostPattern'']) (\<lambda>hostPattern.
       Inr (JBool (truthy hostPattern)))"

definition createFromUpdateSiteSetting :: "jsval \<Rightarrow> world \<Rightarrow> error + (jsval \<times> world)" where
  "createFromUpdateSiteSetting =
     CreateFromUpdate ''siteSetting'' isValidRecord_siteSetting (\<lambda>siteSetting w. Inr (siteSetting, w))"

text \<open>\<open>createFromUpdate\<close>: the \<open>switch\<close> compares \<open>record.objectData\<close> with \<open>===\<close>.\<close>

definition createFromUpdate :: "jsval \<Rightarrow> world \<Rightarrow> error + (jsval \<times> world)" where
  "createFromUpdate record w =
     (if \<not> truthy record then Inl MissingUpdateSyncRecord
      else bind_res (get_prop (heap w) record ''action'') (\<lambda>action.
        if action \<noteq> proto_actions_UPDATE then Inl MissingUpdateSyncRecord
        else bind_res (get_prop (heap w) record ''objectData'') (\<lambda>objectData.
          if objectData = JStr ''bookmark'' then createFromUpdateBookmark record w
          else if objectData = JStr ''historySite'' then createFromUpdateHistorySite record w
          else if objectData = JStr ''siteSetting'' then createFromUpdateSiteSetting record w
          else Inr (JNull, console_log (InvalidObjectData objectData) w))))"

definition nullIgnore :: "jsval \<Rightarrow> world \<Rightarrow> error + (jsval \<times> world)" where
  "nullIgnore record w =
     bind_res (get_prop (heap w) record ''action'') (\<lambda>action.
       bind_res (get_prop (heap w) record ''objectId'') (\<lambda>objectId.
         Inr (JNull, console_log (Ignoring action objectId) w)))"

text \<open>
  \<open>resolve(record, existingObject)\<close>. The deep comparison \<open>valueEquals\<close> of \<open>lib/valueEquals\<close>
  is not among the source files; it is a parameter, a test on two values that reads the
  heap.
\<close>

definition resolve ::
  "(heap \<Rightarrow> jsval \<Rightarrow> jsval \<Rightarrow> bool) \<Rightarrow> jsval \<Rightarrow> jsval \<Rightarrow> world \<Rightarrow> error + (jsval \<times> world)" where
  "resolve valueEquals record existingObject w =
     (if \<not> truthy record then Inl MissingSyncRecordJS
      else bind_res (get_prop (heap w) record ''action'') (\<lambda>action.
        if action = proto_actions_CREATE then
          (if truthy existingObject then nullIgnore record w else Inr (record, w))
        else if action = proto_actions_UPDATE then
          (if truthy existingObject then
             bind_res (get_prop (heap w) record ''objectData'') (\<lambda>objectData.
             bind_res (get_prop (heap w) record (to_key objectData)) (\<lambda>newProps.
             bind_res (get_prop (heap w) existingObject ''objectData'') (\<lambda>existingData.
             bind_res (get_prop (heap w) existingObject (to_key existingData)) (\<lambda>existingProps.
               if valueEquals (heap w) newProps existingProps then nullIgnore record w
               else Inr (record, w)))))
           else bind_res (createFromUpdate record w) (\<lambda>(created, w1).
             if truthy created then Inr (created, w1) else nullIgnore record w1))
        else if action = proto_actions_DELETE then
          (if truthy existingObject then Inr (record, w) else nullIgnore record w)
        else Inl (InvalidRecordAction action)))"

section \<open>Storage transport\<close>

type_synonym bytes = "8 word list"

text \<open>A value passed to \<open>FormData.append\<close>: a string or a \<open>Uint8Array\<close>.\<close>

datatype form_value = FormString string | FormBytes bytes

type_synonym form_data = "(string \<times> form_value) list"

text \<open>
  A response of \<open>window.fetch\<close>. \<open>body_text\<close> is what \<open>response.text()\<close> resolves with,
  and \<open>None\<close> when that promise does not resolve.
\<close>

record fetch_response =
  status :: int
  statusText :: string
  body_text :: "string option"

text \<open>An \<open>Error\<close>: its message, and the response \<open>checkFetchStatus\<close> attaches to it.\<close>

record js_error =
  message :: string
  response :: "fetch_response option"

record request =
  url :: string
  http_method :: string
  body :: form_data

text \<open>
  The fields of a \<open>RequestUtil\<close> that the uploads read. \<open>postData\<close> is the object of form
  fields saved from the credential response, as its keys and values in key order.
\<close>

record request_util =
  apiVersion :: string
  userId :: string
  postData :: "(string \<times> string) list"
  s3PostEndpoint :: string

text \<open>
  The transport's world: the \<open>RequestUtil\<close> object, the state of the network, and the wall
  clock (\<open>now_ms i\<close> is the \<open>i\<close>-th reading of \<open>Date.now()\<close>).
\<close>

record 'n transport =
  this :: request_util
  network :: 'n
  now_ms :: "nat \<Rightarrow> int"
  readings :: nat

text \<open>
  The two patterns of \<open>EXPIRED_CREDENTIAL_ERRORS\<close>. Each is a regular expression without
  operators (the dots are escaped), so it matches a message that contains its text.
\<close>

definition EXPIRED_CREDENTIAL_ERRORS :: "string list" where
  "EXPIRED_CREDENTIAL_ERRORS =
     [''The provided token has expired.'',
      ''Invalid according to Policy: Policy expired.'']"

fun starts_with :: "string \<Rightarrow> string \<Rightarrow> bool" where
  "starts_with [] s = True"
| "starts_with (p # ps) [] = False"
| "starts_with (p # ps) (c # cs) = (p = c \<and> starts_with ps cs)"

text \<open>\<open>s.match(pattern)\<close> for such a pattern: is the text found anywhere in \<open>s\<close>?\<close>

fun str_match :: "string \<Rightarrow> string \<Rightarrow> bool" where
  "str_match [] pattern = starts_with pattern []"
| "str_match (c # cs) pattern = (starts_with pattern (c # cs) \<or> str_match cs pattern)"

definition checkFetchStatus :: "fetch_response \<Rightarrow> js_error + fetch_response" where
  "checkFetchStatus resp =
     (if status resp \<ge> 200 \<and> status resp < 300 then Inr resp
      else Inl \<lparr>message = statusText resp, response = Some resp\<rparr>)"

definition isExpiredCredentialError :: "js_error \<Rightarrow> bool" where
  "isExpiredCredentialError error =
     list_ex (\<lambda>pattern. str_match (message error) pattern) EXPIRED_CREDENTIAL_ERRORS"

text \<open>\<open>getTime()\<close>: the clock in whole seconds.\<close>

definition getTime :: "'n transport \<Rightarrow> int \<times> 'n transport" where
  "getTime w = (now_ms w (readings w) div 1000, w\<lparr>readings := Suc (readings w)\<rparr>)"

definition currentRecordPrefix :: "string \<Rightarrow> 'n transport \<Rightarrow> string \<times> 'n transport" where
  "currentRecordPrefix category w =
     (let (t, w1) = getTime w
      in (apiVersion (this w) @ ''/'' @ userId (this w) @ ''/'' @ category @ ''/'' @ show_int t @ ''/'',
          w1))"

text \<open>
  \<open>s3PostFormData(objectKey)\<close>: the loop appends one field for each key of \<open>postData\<close>.
  The \<open>file\<close> field is given \<open>new Uint8Array([])\<close>.
\<close>

definition Object_keys :: "(string \<times> 'v) list \<Rightarrow> string list" where
  "Object_keys obj = map fst obj"

definition s3PostFormData :: "request_util \<Rightarrow> string \<Rightarrow> form_data" where
  "s3PostFormData ru objectKey =
     (let formData = [];
          formData = formData @ [(''key'', FormString objectKey)];
          formData =
            foldl (\<lambda>fd key. fd @ [(key, FormString (case map_of (postData ru) key of
                                                      Some v \<Rightarrow> v | None \<Rightarrow> ''undefined''))])
                  formData (Object_keys (postData ru));
          formData = formData @ [(''file'', FormBytes [])]
      in formData)"

text \<open>
  How a call of \<open>withRetry\<close> ends: it throws before returning a promise, or it returns a
  promise that is resolved, rejected, or never settled. What is thrown or rejected with is
  \<open>previousError\<close> or a caught error; \<open>None\<close> is \<open>undefined\<close>.
\<close>

datatype 'a outcome =
    Thrown "js_error option"
  | Resolved 'a
  | Rejected "js_error option"
  | Pending

text \<open>
  The failure handler's first step: when the error carries a response, the body text is
  appended to the error's message once \<open>response.text()\<close> resolves. \<open>None\<close>: it does not
  resolve, and the handler goes no further.
\<close>

definition with_response_body :: "js_error \<Rightarrow> js_error option" where
  "with_response_body error =
     (case response error of
        None \<Rightarrow> Some error
      | Some resp \<Rightarrow>
          (case body_text resp of
             None \<Rightarrow> None
           | Some bodyText \<Rightarrow> Some (error\<lparr>message := message error @ bodyText\<rparr>)))"

text \<open>
  \<open>withRetry(myFun, retries, previousError)\<close>. \<open>myFun\<close> returns a promise that is resolved
  (\<open>Inr\<close>) or rejected (\<open>Inl\<close>), and so does \<open>refreshAWSCredentials\<close>; both act on the world.

  The body of the promise runs in this order: with a previous error, the promise is
  rejected with it unless it is an expired-credential error, and otherwise the
  credentials are refreshed first (a failed refresh leaves the promise unsettled, there
  being no handler for it); then \<open>myFun\<close> is called; when it fails, \<open>withRetry\<close> is called
  again with one retry less and the error just caught, and what that call throws is
  caught and rejected with.
\<close>

function withRetry ::
  "('w \<Rightarrow> (js_error + 'a) \<times> 'w) \<Rightarrow> ('w \<Rightarrow> (js_error + unit) \<times> 'w) \<Rightarrow> int \<Rightarrow> js_error option
     \<Rightarrow> 'w \<Rightarrow> 'a outcome \<times> 'w" where
  "withRetry myFun refreshAWSCredentials retries previousError w =
     (if retries < 0 then (Thrown previousError, w)
      else
        (case (case previousError of
                 None \<Rightarrow> Inr w
               | Some pe \<Rightarrow>
                   if \<not> isExpiredCredentialError pe then Inl (Rejected (Some pe), w)
                   else (case refreshAWSCredentials w of
                           (Inl _, w') \<Rightarrow> Inl (Pending, w')
                         | (Inr _, w') \<Rightarrow> Inr w')) of
           Inl settled \<Rightarrow> settled
         | Inr w1 \<Rightarrow>
             (case myFun w1 of
                (Inr v, w2) \<Rightarrow> (Resolved v, w2)
              | (Inl error, w2) \<Rightarrow>
                  (case with_response_body error of
                     None \<Rightarrow> (Pending, w2)
                   | Some error' \<Rightarrow>
                       (case withRetry myFun refreshAWSCredentials (retries - 1) (Some error') w2 of
                          (Thrown e, w3) \<Rightarrow> (Rejected e, w3)
                        | settled \<Rightarrow> settled)))))"
  by pat_completeness auto
termination
  by (relation "measure (\<lambda>(myFun, refreshAWSCredentials, retries, previousError, w). nat (retries + 1))")
     auto

declare withRetry.simps [simp del]

text \<open>
  \<open>put(category, record)\<close>. The splitting of a record into keys,
  \<open>s3Helper.encodeDataToS3KeyArray\<close>, is not among the source files and is a parameter, as
  is the network behind \<open>window.fetch\<close>. One attempt issues a form POST for every key and
  joins them with \<open>Promise.all\<close>; the model settles the uploads in the order they were
  issued.
\<close>

definition put_requests :: "request_util \<Rightarrow> string list \<Rightarrow> request list" where
  "put_requests ru s3Keys =
     map (\<lambda>key. \<lparr>url = s3PostEndpoint ru, http_method = ''POST'', body = s3PostFormData ru key\<rparr>)
         s3Keys"

fun fetch_all ::
  "(request \<Rightarrow> 'n \<Rightarrow> (js_error + fetch_response) \<times> 'n) \<Rightarrow> request list \<Rightarrow> 'n
     \<Rightarrow> (js_error + fetch_response) list \<times> 'n" where
  "fetch_all fetch [] n = ([], n)"
| "fetch_all fetch (r # rs) n =
     (let (x, n1) = fetch r n; (xs, n2) = fetch_all fetch rs n1 in (x # xs, n2))"

fun Promise_all :: "(js_error + 'a) list \<Rightarrow> js_error + 'a list" where
  "Promise_all [] = Inr []"
| "Promise_all (Inl e # ps) = Inl e"
| "Promise_all (Inr x # ps) = (case Promise_all ps of Inl e \<Rightarrow> Inl e | Inr xs \<Rightarrow> Inr (x # xs))"

definition put_attempt ::
  "(request \<Rightarrow> 'n \<Rightarrow> (js_error + fetch_response) \<times> 'n) \<Rightarrow> string list \<Rightarrow> 'n transport
     \<Rightarrow> (js_error + fetch_response list) \<times> 'n transport" where
  "put_attempt fetch s3Keys w =
     (let (answers, n) = fetch_all fetch (put_requests (this w) s3Keys) (network w)
      in (Promise_all (map (\<lambda>answer. case answer of Inl e \<Rightarrow> Inl e
                                                   | Inr resp \<Rightarrow> checkFetchStatus resp) answers),
          w\<lparr>network := n\<rparr>))"

definition put ::
  "(string \<Rightarrow> bytes \<Rightarrow> string list) \<Rightarrow> (request \<Rightarrow> 'n \<Rightarrow> (js_error + fetch_response) \<times> 'n)
     \<Rightarrow> ('n transport \<Rightarrow> (js_error + unit) \<times> 'n transport) \<Rightarrow> string \<Rightarrow> bytes \<Rightarrow> 'n transport
     \<Rightarrow> fetch_response list outcome \<times> 'n transport" where
  "put encodeDataToS3KeyArray fetch refreshAWSCredentials category record w =
     (let (s3Prefix, w1) = currentRecordPrefix category w;
          s3Keys = encodeDataToS3KeyArray s3Prefix record
      in withRetry (put_attempt fetch s3Keys) refreshAWSCredentials 1 None w1)"

section \<open>Vocabulary of the properties\<close>

text \<open>\<open>prop_at w a k\<close>: the property \<open>k\<close> of the object at address \<open>a\<close>, as \<open>o.k\<close> reads it.\<close>

definition prop_at :: "world \<Rightarrow> addr \<Rightarrow> string \<Rightarrow> jsval" where
  "prop_at w a k = lookup_prop (heap_obj (heap w) a) k"

text \<open>\<open>has_prop w a k\<close>: the object at \<open>a\<close> has an own property \<open>k\<close>.\<close>

definition has_prop :: "world \<Rightarrow> addr \<Rightarrow> string \<Rightarrow> bool" where
  "has_prop w a k = (k \<in> set (map fst (heap_obj (heap w) a)))"

text \<open>The payload of a record under its own discriminator, \<open>v[v.objectData]\<close>.\<close>

definition payload_of :: "heap \<Rightarrow> jsval \<Rightarrow> error + jsval" where
  "payload_of h v =
     bind_res (get_prop h v ''objectData'') (\<lambda>objectData. get_prop h v (to_key objectData))"



section \<open>Example worlds\<close>

text \<open>A world with the given heap, an empty console and a clock that advances by one
  millisecond from one reading to the next.\<close>

definition world_of :: "heap \<Rightarrow> world" where
  "world_of h = \<lparr>heap = h, console = [], clock = (\<lambda>i. 1480000000000 + int i), ticks = 0\<rparr>"

text \<open>A stand-in for \<open>valueEquals\<close> in the examples: equal primitives, or one and the same
  object.\<close>

definition same_value :: "heap \<Rightarrow> jsval \<Rightarrow> jsval \<Rightarrow> bool" where
  "same_value h x y = (x = y)"

text \<open>
  A history record with the given action at address 0, with its site at 1; the existing
  object at 2, a copy of the record that shares the site; an update of the custom title
  at 3 and 4.
\<close>

definition history_heap :: "jsval \<Rightarrow> heap" where
  "history_heap action =
     [[(''action'', action), (''objectId'', JStr ''id-1''),
       (''objectData'', JStr ''historySite''), (''historySite'', JRef 1)],
      [(''location'', JStr ''https://www.jisho.org''), (''title'', JStr ''jisho''),
       (''customTitle'', JStr ''dictionary''),
       (''lastAccessedTime'', JNum 1480004209001), (''creationTime'', JNum 1480004209001)],
      [(''action'', proto_actions_CREATE), (''objectId'', JStr ''id-1''),
       (''objectData'', JStr ''historySite''), (''historySite'', JRef 1)],
      [(''action'', proto_actions_UPDATE), (''objectId'', JStr ''id-1''),
       (''objectData'', JStr ''historySite''), (''historySite'', JRef 4)],
      [(''customTitle'', JStr ''a ball pit filled with plush coconuts'')]]"






text \<open>A \<open>RequestUtil\<close> with two signed form fields, and a network that accepts every upload
  and keeps the requests it was sent.\<close>

definition example_util :: request_util where
  "example_util =
     \<lparr>apiVersion = ''0'', userId = ''dXNlcg=='',
      postData = [(''acl'', ''private''), (''policy'', ''eyJleHAiOjB9'')],
      s3PostEndpoint = ''https://bucket.s3.dualstack.us-west-2.amazonaws.com''\<rparr>"

definition accept_all :: "request \<Rightarrow> request list \<Rightarrow> (js_error + fetch_response) \<times> request list" where
  "accept_all r sent =
     (Inr \<lparr>status = 204, statusText = ''No Content'', body_text = Some []\<rparr>, sent @ [r])"

definition example_transport :: "request list transport" where
  "example_transport =
     \<lparr>this = example_util, network = [], now_ms = (\<lambda>i. 1480000000123 + int i), readings = 0\<rparr>"

text \<open>A stand-in for the key encoder on a record that fits one key: the single key is the
  prefix followed by the text that stands for the record's bytes.\<close>

definition one_key :: "string \<Rightarrow> string \<Rightarrow> bytes \<Rightarrow> string list" where
  "one_key encoded s3Prefix record = [s3Prefix @ encoded]"

text \<open>A refresh that succeeds and leaves the credentials as they are.\<close>

definition refresh_same :: "'n transport \<Rightarrow> (js_error + unit) \<times> 'n transport" where
  "refresh_same w = (Inr (), w)"

text \<open>
  The upload form in the words of the amended claim: the \<open>key\<close> field, the fields of the
  credential bundle in their order, and a \<open>file\<close> field that carries no bytes.
\<close>

definition upload_form :: "request_util \<Rightarrow> string \<Rightarrow> form_data" where
  "upload_form ru key =
     (''key'', FormString key) # map (\<lambda>(k, v). (k, FormString v)) (postData ru)
       @ [(''file'', FormBytes [])]"

text \<open>An update of a history site that carries only a location, at address 0, with the
  site at 1.\<close>

definition location_update_heap :: heap where
  "location_update_heap =
     [[(''action'', proto_actions_UPDATE), (''objectId'', JStr ''id-2''),
       (''objectData'', JStr ''historySite''), (''historySite'', JRef 1)],
      [(''location'', JStr ''https://jisho.org'')]]"

text \<open>An update of a device at address 0, with the device at 1.\<close>

definition device_update_heap :: heap where
  "device_update_heap =
     [[(''action'', proto_actions_UPDATE), (''objectId'', JStr ''id-3''),
       (''objectData'', JStr ''device''), (''device'', JRef 1)],
      [(''name'', JStr ''mobile pyramid'')]]"

text \<open>An update with the given discriminator and no payload field at all.\<close>

definition bare_update_heap :: "string \<Rightarrow> heap" where
  "bare_update_heap objectData =
     [[(''action'', proto_actions_UPDATE), (''objectId'', JStr ''id-4''),
       (''objectData'', JStr objectData)]]"


text \<open>\<open>kept_except A h h'\<close>: every object of the heap \<open>h\<close> whose address is not in \<open>A\<close> is the
  same in \<open>h'\<close>, and no address of \<open>h\<close> is lost.\<close>

definition kept_except :: "addr set \<Rightarrow> heap \<Rightarrow> heap \<Rightarrow> bool" where
  "kept_except A h h' =
     (length h \<le> length h' \<and> (\<forall>x < length h. x \<notin> A \<longrightarrow> heap_obj h' x = heap_obj h x))"

text \<open>
  A network that also keeps the uploads it was asked for: \<open>recording fetch\<close> answers as
  \<open>fetch\<close> does on the first component of its state and appends each request to the
  second component.
\<close>

definition recording ::
  "(request \<Rightarrow> 'n \<Rightarrow> (js_error + fetch_response) \<times> 'n) \<Rightarrow> request \<Rightarrow> 'n \<times> request list
     \<Rightarrow> (js_error + fetch_response) \<times> ('n \<times> request list)" where
  "recording fetch r ns = (let (x, n) = fetch r (fst ns) in (x, (n, snd ns @ [r])))"

text \<open>The uploads recorded in a world.\<close>

definition uploads :: "('n \<times> request list) transport \<Rightarrow> request list" where
  "uploads w = snd (network w)"

text \<open>A store that answers its first request with an expired policy and accepts every
  later one; its state counts the requests.\<close>

definition expired_then_accept :: "request \<Rightarrow> nat \<Rightarrow> (js_error + fetch_response) \<times> nat" where
  "expired_then_accept r n =
     (if n = 0
      then Inr \<lparr>status = 403, statusText = ''Forbidden'',
                body_text = Some ''Invalid according to Policy: Policy expired.''\<rparr>
      else Inr \<lparr>status = 204, statusText = ''No Content'', body_text = Some []\<rparr>,
      Suc n)"

text \<open>A refresh that succeeds and saves a new policy among the form fields.\<close>

definition refresh_policy :: "'n transport \<Rightarrow> (js_error + unit) \<times> 'n transport" where
  "refresh_policy w =
     (Inr (), w\<lparr>this := (this w)\<lparr>postData := [(''acl'', ''private''), (''policy'', ''eyJleHAiOjF9'')]\<rparr>\<rparr>)"

definition recording_transport :: "(nat \<times> request list) transport" where
  "recording_transport =
     \<lparr>this = example_util, network = (0, []), now_ms = (\<lambda>i. 1480000000123 + int i), readings = 0\<rparr>"

section \<open>Properties of the resolver\<close>

lemma get_prop_truthy: "truthy v \<Longrightarrow> \<exists>x. get_prop h v k = Inr x"
  by (cases v) auto

lemmas proto_actions_defs =
  proto_actions_CREATE_def proto_actions_UPDATE_def proto_actions_DELETE_def

lemmas history_heap_simps =
  history_heap_def world_of_def prop_at_def heap_obj_def lookup_prop_def proto_actions_defs

text \<open>
  C1. For a record with action UPDATE and an existing object present, \<open>resolve\<close> reads the
  payload of the record under \<open>record.objectData\<close> and the payload of the existing object
  under \<open>existingObject.objectData\<close>, neither read fails, and the result is \<open>null\<close> (with
  the diagnostic of an ignored record) exactly when \<open>valueEquals\<close> holds of the two
  payloads; otherwise it is the record itself, in an unchanged world.
\<close>

theorem resolve_update_existing:
  assumes "prop_at w a ''action'' = proto_actions_UPDATE" and "truthy existingObject"
  shows "\<exists>newProps existingProps.
           payload_of (heap w) (JRef a) = Inr newProps
         \<and> payload_of (heap w) existingObject = Inr existingProps
         \<and> resolve valueEquals (JRef a) existingObject w =
             (if valueEquals (heap w) newProps existingProps
              then Inr (JNull, console_log (Ignoring proto_actions_UPDATE (prop_at w a ''objectId'')) w)
              else Inr (JRef a, w))"
proof -
  obtain d where d: "get_prop (heap w) existingObject ''objectData'' = Inr d"
    using get_prop_truthy [OF assms(2)] by blast
  obtain q where q: "get_prop (heap w) existingObject (to_key d) = Inr q"
    using get_prop_truthy [OF assms(2)] by blast
  show ?thesis
    using assms d q
    by (simp add: resolve_def nullIgnore_def bind_res_def prop_at_def payload_of_def
        proto_actions_defs)
qed

theorem resolve_update_existing_witness:
  "(\<exists>newProps existingProps.
      payload_of (history_heap proto_actions_UPDATE) (JRef 3) = Inr newProps
    \<and> payload_of (history_heap proto_actions_UPDATE) (JRef 2) = Inr existingProps
    \<and> resolve same_value (JRef 3) (JRef 2) (world_of (history_heap proto_actions_UPDATE)) =
        (if same_value (history_heap proto_actions_UPDATE) newProps existingProps
         then Inr (JNull, console_log (Ignoring proto_actions_UPDATE (JStr ''id-1''))
                            (world_of (history_heap proto_actions_UPDATE)))
         else Inr (JRef 3, world_of (history_heap proto_actions_UPDATE))))
   \<and> payload_of (history_heap proto_actions_UPDATE) (JRef 3) = Inr (JRef 4)
   \<and> payload_of (history_heap proto_actions_UPDATE) (JRef 2) = Inr (JRef 1)"
proof -
  have a: "prop_at (world_of (history_heap proto_actions_UPDATE)) 3 ''action'' = proto_actions_UPDATE"
    by (simp add: history_heap_simps)
  have e: "truthy (JRef 2)"
    by simp
  have i: "prop_at (world_of (history_heap proto_actions_UPDATE)) 3 ''objectId'' = JStr ''id-1''"
    by (simp add: history_heap_simps)
  have p: "payload_of (history_heap proto_actions_UPDATE) (JRef 3) = Inr (JRef 4)"
          "payload_of (history_heap proto_actions_UPDATE) (JRef 2) = Inr (JRef 1)"
    by (simp_all add: payload_of_def bind_res_def history_heap_simps)
  have h: "heap (world_of (history_heap proto_actions_UPDATE)) = history_heap proto_actions_UPDATE"
    by (simp add: world_of_def)
  show ?thesis
    using resolve_update_existing [OF a e, of same_value] p unfolding i h by simp
qed

text \<open>
  C2. For a record with action CREATE, \<open>resolve\<close> gives \<open>null\<close> (and the diagnostic) when an
  existing object is present and the record itself when none is; for a record with action
  DELETE, the record itself when an existing object is present and \<open>null\<close> (and the
  diagnostic) when none is. Where the record is returned the world is unchanged.
\<close>

theorem resolve_create_delete:
  "(prop_at w a ''action'' = proto_actions_CREATE \<longrightarrow>
      resolve valueEquals (JRef a) existingObject w =
        (if truthy existingObject
         then Inr (JNull, console_log (Ignoring proto_actions_CREATE (prop_at w a ''objectId'')) w)
         else Inr (JRef a, w)))
   \<and> (prop_at w a ''action'' = proto_actions_DELETE \<longrightarrow>
      resolve valueEquals (JRef a) existingObject w =
        (if truthy existingObject
         then Inr (JRef a, w)
         else Inr (JNull, console_log (Ignoring proto_actions_DELETE (prop_at w a ''objectId'')) w)))"
  by (simp add: resolve_def nullIgnore_def bind_res_def prop_at_def proto_actions_defs)

theorem resolve_create_delete_witness:
  "resolve same_value (JRef 0) (JRef 2) (world_of (history_heap proto_actions_CREATE)) =
     Inr (JNull, console_log (Ignoring proto_actions_CREATE (JStr ''id-1''))
                   (world_of (history_heap proto_actions_CREATE)))
   \<and> resolve same_value (JRef 0) JUndefined (world_of (history_heap proto_actions_CREATE)) =
     Inr (JRef 0, world_of (history_heap proto_actions_CREATE))
   \<and> resolve same_value (JRef 0) (JRef 2) (world_of (history_heap proto_actions_DELETE)) =
     Inr (JRef 0, world_of (history_heap proto_actions_DELETE))
   \<and> resolve same_value (JRef 0) JUndefined (world_of (history_heap proto_actions_DELETE)) =
     Inr (JNull, console_log (Ignoring proto_actions_DELETE (JStr ''id-1''))
                   (world_of (history_heap proto_actions_DELETE)))"
proof -
  have c: "prop_at (world_of (history_heap proto_actions_CREATE)) 0 ''action'' = proto_actions_CREATE"
    by (simp add: history_heap_simps)
  have d: "prop_at (world_of (history_heap proto_actions_DELETE)) 0 ''action'' = proto_actions_DELETE"
    by (simp add: history_heap_simps)
  have i: "prop_at (world_of (history_heap proto_actions_CREATE)) 0 ''objectId'' = JStr ''id-1''"
          "prop_at (world_of (history_heap proto_actions_DELETE)) 0 ''objectId'' = JStr ''id-1''"
    by (simp_all add: history_heap_simps)
  show ?thesis
    using resolve_create_delete [of "world_of (history_heap proto_actions_CREATE)" 0 same_value "JRef 2"]
          resolve_create_delete [of "world_of (history_heap proto_actions_CREATE)" 0 same_value JUndefined]
          resolve_create_delete [of "world_of (history_heap proto_actions_DELETE)" 0 same_value "JRef 2"]
          resolve_create_delete [of "world_of (history_heap proto_actions_DELETE)" 0 same_value JUndefined]
          c d
    unfolding i by simp
qed

lemmas synthesis_defs =
  createFromUpdate_def createFromUpdateBookmark_def createFromUpdateHistorySite_def
  createFromUpdateSiteSetting_def CreateFromUpdate_def createSitePropsFromUpdateSite_def
  isValidRecord_bookmark_def isValidRecord_historySite_def isValidRecord_siteSetting_def
  mapUpdateToCreate_bookmark_def

lemmas heap_op_defs =
  bind_res_def alloc_def Date_now_def console_log_def assign_from_def assign_props_def
  heap_obj_def lookup_prop_def

text \<open>
  C3. For a record with action UPDATE and no existing object, \<open>resolve\<close> returns what
  \<open>createFromUpdate\<close> returns for the record when that is a record, and \<open>null\<close> (with the
  diagnostic of an ignored record) when \<open>createFromUpdate\<close> returns \<open>null\<close>. When the
  discriminator is none of \<open>bookmark\<close>, \<open>historySite\<close>, \<open>siteSetting\<close> (so for \<open>device\<close>),
  the call does not throw, the result is \<open>null\<close>, the world is otherwise unchanged, and
  the console receives the warning that names the discriminator and then the diagnostic
  of the ignored record.
\<close>

theorem resolve_update_absent:
  assumes "prop_at w a ''action'' = proto_actions_UPDATE" and "\<not> truthy existingObject"
  shows "(createFromUpdate (JRef a) w = Inr (created, w1) \<longrightarrow>
            resolve valueEquals (JRef a) existingObject w =
              (if truthy created then Inr (created, w1)
               else Inr (JNull, console_log (Ignoring (prop_at w1 a ''action'')
                                                     (prop_at w1 a ''objectId'')) w1)))
       \<and> (prop_at w a ''objectData'' \<notin> {JStr ''bookmark'', JStr ''historySite'', JStr ''siteSetting''} \<longrightarrow>
            resolve valueEquals (JRef a) existingObject w =
              Inr (JNull, w\<lparr>console := console w @
                     [InvalidObjectData (prop_at w a ''objectData''),
                      Ignoring proto_actions_UPDATE (prop_at w a ''objectId'')]\<rparr>))"
proof (intro conjI impI)
  assume "createFromUpdate (JRef a) w = Inr (created, w1)"
  with assms show "resolve valueEquals (JRef a) existingObject w =
      (if truthy created then Inr (created, w1)
       else Inr (JNull, console_log (Ignoring (prop_at w1 a ''action'')
                                             (prop_at w1 a ''objectId'')) w1))"
    by (simp add: resolve_def nullIgnore_def bind_res_def prop_at_def proto_actions_defs)
next
  assume other: "prop_at w a ''objectData'' \<notin> {JStr ''bookmark'', JStr ''historySite'', JStr ''siteSetting''}"
  with assms(1)
  have "createFromUpdate (JRef a) w =
          Inr (JNull, console_log (InvalidObjectData (prop_at w a ''objectData'')) w)"
    by (simp add: createFromUpdate_def bind_res_def prop_at_def)
  with assms show "resolve valueEquals (JRef a) existingObject w =
      Inr (JNull, w\<lparr>console := console w @
             [InvalidObjectData (prop_at w a ''objectData''),
              Ignoring proto_actions_UPDATE (prop_at w a ''objectId'')]\<rparr>)"
    by (simp add: resolve_def nullIgnore_def bind_res_def prop_at_def console_log_def
          proto_actions_defs)
qed

theorem resolve_update_absent_witness:
  "resolve same_value (JRef 0) JUndefined (world_of location_update_heap) =
     Inr (JRef 0, (world_of location_update_heap)
        \<lparr>heap :=
           [[(''action'', proto_actions_CREATE), (''objectId'', JStr ''id-2''),
             (''objectData'', JStr ''historySite''), (''historySite'', JRef 3)],
            [(''location'', JStr ''https://jisho.org'')],
            [(''title'', JStr []), (''customTitle'', JStr ''https://jisho.org''),
             (''lastAccessedTime'', JNum 1480000000000), (''creationTime'', JNum 1480000000001)],
            [(''title'', JStr []), (''customTitle'', JStr ''https://jisho.org''),
             (''lastAccessedTime'', JNum 1480000000000), (''creationTime'', JNum 1480000000001),
             (''location'', JStr ''https://jisho.org'')],
            [(''action'', proto_actions_CREATE), (''historySite'', JRef 3)]],
         ticks := 2\<rparr>)
   \<and> resolve same_value (JRef 0) JUndefined (world_of device_update_heap) =
     Inr (JNull, (world_of device_update_heap)
        \<lparr>console := [InvalidObjectData (JStr ''device''),
                      Ignoring proto_actions_UPDATE (JStr ''id-3'')]\<rparr>)"
proof -
  let ?w = "world_of location_update_heap"
  let ?w1 = "?w\<lparr>heap :=
           [[(''action'', proto_actions_CREATE), (''objectId'', JStr ''id-2''),
             (''objectData'', JStr ''historySite''), (''historySite'', JRef 3)],
            [(''location'', JStr ''https://jisho.org'')],
            [(''title'', JStr []), (''customTitle'', JStr ''https://jisho.org''),
             (''lastAccessedTime'', JNum 1480000000000), (''creationTime'', JNum 1480000000001)],
            [(''title'', JStr []), (''customTitle'', JStr ''https://jisho.org''),
             (''lastAccessedTime'', JNum 1480000000000), (''creationTime'', JNum 1480000000001),
             (''location'', JStr ''https://jisho.org'')],
            [(''action'', proto_actions_CREATE), (''historySite'', JRef 3)]],
         ticks := 2\<rparr>"
  have update: "prop_at ?w 0 ''action'' = proto_actions_UPDATE"
    by (simp add: location_update_heap_def world_of_def prop_at_def heap_op_defs proto_actions_defs)
  have absent: "\<not> truthy JUndefined"
    by simp
  have created: "createFromUpdate (JRef 0) ?w = Inr (JRef 0, ?w1)"
    by (simp add: location_update_heap_def world_of_def synthesis_defs heap_op_defs
          proto_actions_defs)
  have first: "resolve same_value (JRef 0) JUndefined ?w = Inr (JRef 0, ?w1)"
    using resolve_update_absent [OF update absent, THEN conjunct1, rule_format, OF created, of same_value]
    by simp
  let ?d = "world_of device_update_heap"
  have update_d: "prop_at ?d 0 ''action'' = proto_actions_UPDATE"
    and data_d: "prop_at ?d 0 ''objectData'' = JStr ''device''"
    and id_d: "prop_at ?d 0 ''objectId'' = JStr ''id-3''"
    by (simp_all add: device_update_heap_def world_of_def prop_at_def heap_op_defs proto_actions_defs)
  have other: "prop_at ?d 0 ''objectData'' \<notin> {JStr ''bookmark'', JStr ''historySite'', JStr ''siteSetting''}"
    unfolding data_d by simp
  have second: "resolve same_value (JRef 0) JUndefined ?d =
     Inr (JNull, ?d\<lparr>console := [InvalidObjectData (JStr ''device''),
                                 Ignoring proto_actions_UPDATE (JStr ''id-3'')]\<rparr>)"
    using resolve_update_absent [OF update_d absent, THEN conjunct2, rule_format, OF other, of same_value]
    unfolding data_d id_d by (simp add: world_of_def)
  from first second show ?thesis
    by simp
qed

text \<open>
  C10, as amended. For an UPDATE record whose discriminator is \<open>bookmark\<close>, \<open>historySite\<close>
  or \<open>siteSetting\<close> and whose payload under that name is absent (or falsy), resolving it
  with no existing object throws \<open>Record missing <type>\<close>.
\<close>

theorem resolve_update_missing_payload:
  assumes "prop_at w a ''action'' = proto_actions_UPDATE" and "\<not> truthy existingObject"
    and "type \<in> {''bookmark'', ''historySite'', ''siteSetting''}"
    and "prop_at w a ''objectData'' = JStr type"
    and "\<not> truthy (prop_at w a type)"
  shows "resolve valueEquals (JRef a) existingObject w = Inl (RecordMissing type)"
  using assms
  by (auto simp: resolve_def createFromUpdate_def createFromUpdateBookmark_def
        createFromUpdateHistorySite_def createFromUpdateSiteSetting_def CreateFromUpdate_def
        bind_res_def prop_at_def proto_actions_defs)

theorem resolve_update_missing_payload_witness:
  "resolve same_value (JRef 0) JUndefined (world_of (bare_update_heap ''bookmark'')) =
     Inl (RecordMissing ''bookmark'')"
proof -
  let ?w = "world_of (bare_update_heap ''bookmark'')"
  have "prop_at ?w 0 ''action'' = proto_actions_UPDATE"
    and "prop_at ?w 0 ''objectData'' = JStr ''bookmark''"
    and "\<not> truthy (prop_at ?w 0 ''bookmark'')"
    by (simp_all add: bare_update_heap_def world_of_def prop_at_def heap_op_defs proto_actions_defs)
  moreover have "\<not> truthy JUndefined"
    by simp
  moreover have "''bookmark'' \<in> {''bookmark'', ''historySite'', ''siteSetting''}"
    by simp
  ultimately show ?thesis
    using resolve_update_missing_payload [of ?w 0 JUndefined "''bookmark''" same_value] by blast
qed

text \<open>
  The claim as stated fails for the discriminator \<open>device\<close>: an UPDATE record that names
  \<open>device\<close> and has no \<open>device\<close> field resolves to \<open>null\<close> without an exception.
\<close>

theorem resolve_update_missing_device_counterexample:
  "prop_at (world_of (bare_update_heap ''device'')) 0 ''action'' = proto_actions_UPDATE
   \<and> prop_at (world_of (bare_update_heap ''device'')) 0 ''objectData'' = JStr ''device''
   \<and> prop_at (world_of (bare_update_heap ''device'')) 0 ''device'' = JUndefined
   \<and> resolve same_value (JRef 0) JUndefined (world_of (bare_update_heap ''device'')) =
       Inr (JNull, (world_of (bare_update_heap ''device''))
          \<lparr>console := [InvalidObjectData (JStr ''device''),
                        Ignoring proto_actions_UPDATE (JStr ''id-4'')]\<rparr>)"
  by (simp add: bare_update_heap_def world_of_def prop_at_def resolve_def nullIgnore_def
        createFromUpdate_def heap_op_defs proto_actions_defs)

section \<open>Properties of the synthesis\<close>

lemma lookup_set_prop:
  "lookup_prop (set_prop obj k v) k' = (if k' = k then v else lookup_prop obj k')"
  by (induction obj) (auto simp: lookup_prop_def)

lemma lookup_prop_Cons:
  "lookup_prop ((k0, v0) # ps) k = (if k = k0 then v0 else lookup_prop ps k)"
  by (simp add: lookup_prop_def)

lemma lookup_assign_props:
  "distinct (map fst ps) \<Longrightarrow>
   lookup_prop (assign_props obj ps) k =
     (if k \<in> fst ` set ps then lookup_prop ps k else lookup_prop obj k)"
proof (induction ps arbitrary: obj)
  case Nil
  then show ?case by (simp add: assign_props_def)
next
  case (Cons p ps)
  obtain k0 v0 where p: "p = (k0, v0)"
    by (cases p)
  from Cons.prems p have fresh: "k0 \<notin> fst ` set ps" and rest: "distinct (map fst ps)"
    by auto
  have step: "assign_props obj (p # ps) = assign_props (set_prop obj k0 v0) ps"
    by (simp add: assign_props_def p)
  show ?case
    unfolding step Cons.IH [OF rest]
    using fresh by (auto simp: p lookup_set_prop lookup_prop_Cons)
qed

text \<open>The default properties of a site, for a location and two readings of the clock.\<close>

lemma site_defaults_assigned:
  "assign_props [] [(''title'', t), (''customTitle'', c), (''lastAccessedTime'', l), (''creationTime'', n)]
     = [(''title'', t), (''customTitle'', c), (''lastAccessedTime'', l), (''creationTime'', n)]"
  by (simp add: assign_props_def)

lemma createSitePropsFromUpdateSite_object:
  assumes "s < length (heap w)"
  shows "createSitePropsFromUpdateSite (JRef s) w =
     Inr (JRef (Suc (length (heap w))),
          w\<lparr>ticks := Suc (Suc (ticks w)),
            heap := heap w @
              [[(''title'', JStr []),
                (''customTitle'', lookup_prop (heap_obj (heap w) s) ''location''),
                (''lastAccessedTime'', JNum (clock w (ticks w))),
                (''creationTime'', JNum (clock w (Suc (ticks w))))],
               assign_props
                 [(''title'', JStr []),
                  (''customTitle'', lookup_prop (heap_obj (heap w) s) ''location''),
                  (''lastAccessedTime'', JNum (clock w (ticks w))),
                  (''creationTime'', JNum (clock w (Suc (ticks w))))]
                 (heap_obj (heap w) s)]\<rparr>)"
  using assms
  by (simp add: createSitePropsFromUpdateSite_def bind_res_def alloc_def Date_now_def
        assign_from_def heap_obj_def nth_append site_defaults_assigned)

text \<open>
  C4, as amended. Site defaulting builds a new object from the input site. Every field the
  input site has is preserved verbatim; a missing \<open>title\<close> becomes the empty string; a
  missing \<open>customTitle\<close> becomes the site's \<open>location\<close>; a missing \<open>lastAccessedTime\<close>
  becomes one reading of the clock and a missing \<open>creationTime\<close> the next reading of the
  clock. The two readings are separate calls of \<open>Date.now()\<close>, so the two fields are equal
  only when the clock has not advanced between them. The input site is not changed, and
  the new object lies at an address the heap did not have before.
\<close>

theorem site_defaulting:
  assumes "s < length (heap w)" and "distinct (map fst (heap_obj (heap w) s))"
  shows "\<exists>p w'. createSitePropsFromUpdateSite (JRef s) w = Inr (JRef p, w')
      \<and> (\<forall>k. has_prop w s k \<longrightarrow> prop_at w' p k = prop_at w s k)
      \<and> (\<not> has_prop w s ''title'' \<longrightarrow> prop_at w' p ''title'' = JStr [])
      \<and> (\<not> has_prop w s ''customTitle'' \<longrightarrow>
            prop_at w' p ''customTitle'' = prop_at w s ''location'')
      \<and> (\<not> has_prop w s ''lastAccessedTime'' \<longrightarrow>
            prop_at w' p ''lastAccessedTime'' = JNum (clock w (ticks w)))
      \<and> (\<not> has_prop w s ''creationTime'' \<longrightarrow>
            prop_at w' p ''creationTime'' = JNum (clock w (Suc (ticks w))))
      \<and> heap_obj (heap w') s = heap_obj (heap w) s
      \<and> length (heap w) \<le> p"
proof -
  let ?defaults = "[(''title'', JStr []),
                    (''customTitle'', lookup_prop (heap_obj (heap w) s) ''location''),
                    (''lastAccessedTime'', JNum (clock w (ticks w))),
                    (''creationTime'', JNum (clock w (Suc (ticks w))))]"
  let ?site = "assign_props ?defaults (heap_obj (heap w) s)"
  let ?w' = "w\<lparr>ticks := Suc (Suc (ticks w)), heap := heap w @ [?defaults, ?site]\<rparr>"
  let ?p = "Suc (length (heap w))"
  have result: "createSitePropsFromUpdateSite (JRef s) w = Inr (JRef ?p, ?w')"
    by (rule createSitePropsFromUpdateSite_object [OF assms(1)])
  have new: "heap_obj (heap ?w') ?p = ?site"
    by (simp add: heap_obj_def nth_append)
  have old: "heap_obj (heap ?w') s = heap_obj (heap w) s"
    using assms(1) by (simp add: heap_obj_def nth_append)
  have field: "prop_at ?w' ?p k =
      (if k \<in> fst ` set (heap_obj (heap w) s) then lookup_prop (heap_obj (heap w) s) k
       else lookup_prop ?defaults k)" for k
    unfolding prop_at_def new by (rule lookup_assign_props [OF assms(2)])
  have "\<forall>k. has_prop w s k \<longrightarrow> prop_at ?w' ?p k = prop_at w s k"
    unfolding field by (simp add: has_prop_def prop_at_def)
  moreover have "\<not> has_prop w s ''title'' \<longrightarrow> prop_at ?w' ?p ''title'' = JStr []"
    unfolding field by (simp add: has_prop_def lookup_prop_Cons)
  moreover have "\<not> has_prop w s ''customTitle'' \<longrightarrow>
      prop_at ?w' ?p ''customTitle'' = prop_at w s ''location''"
    unfolding field by (simp add: has_prop_def prop_at_def lookup_prop_Cons)
  moreover have "\<not> has_prop w s ''lastAccessedTime'' \<longrightarrow>
      prop_at ?w' ?p ''lastAccessedTime'' = JNum (clock w (ticks w))"
    unfolding field by (simp add: has_prop_def lookup_prop_Cons)
  moreover have "\<not> has_prop w s ''creationTime'' \<longrightarrow>
      prop_at ?w' ?p ''creationTime'' = JNum (clock w (Suc (ticks w)))"
    unfolding field by (simp add: has_prop_def lookup_prop_Cons)
  moreover have "length (heap w) \<le> ?p"
    by simp
  ultimately show ?thesis
    using result old by blast
qed

theorem site_defaulting_witness:
  "\<exists>p w'. createSitePropsFromUpdateSite (JRef 1) (world_of location_update_heap) = Inr (JRef p, w')
      \<and> prop_at w' p ''location'' = JStr ''https://jisho.org''
      \<and> prop_at w' p ''title'' = JStr []
      \<and> prop_at w' p ''customTitle'' = JStr ''https://jisho.org''
      \<and> prop_at w' p ''lastAccessedTime'' = JNum 1480000000000
      \<and> prop_at w' p ''creationTime'' = JNum 1480000000001
      \<and> heap_obj (heap w') 1 = [(''location'', JStr ''https://jisho.org'')]"
proof -
  let ?w = "world_of location_update_heap"
  have site: "heap_obj (heap ?w) 1 = [(''location'', JStr ''https://jisho.org'')]"
    by (simp add: location_update_heap_def world_of_def heap_obj_def)
  have inside: "1 < length (heap ?w)"
    by (simp add: location_update_heap_def world_of_def)
  have once: "distinct (map fst (heap_obj (heap ?w) 1))"
    unfolding site by simp
  have has: "has_prop ?w 1 ''location''" "\<not> has_prop ?w 1 ''title''"
    "\<not> has_prop ?w 1 ''customTitle''" "\<not> has_prop ?w 1 ''lastAccessedTime''"
    "\<not> has_prop ?w 1 ''creationTime''"
    unfolding has_prop_def site by simp_all
  have location: "prop_at ?w 1 ''location'' = JStr ''https://jisho.org''"
    unfolding prop_at_def site by (simp add: lookup_prop_def)
  have time: "clock ?w (ticks ?w) = 1480000000000" "clock ?w (Suc (ticks ?w)) = 1480000000001"
    by (simp_all add: world_of_def)
  from site_defaulting [OF inside once] has location time site
  show ?thesis
    by metis
qed

text \<open>
  The claim as stated fails: on a clock that advances between its two readings, the
  defaulted \<open>lastAccessedTime\<close> and \<open>creationTime\<close> of one call differ.
\<close>

theorem site_defaulting_instants_counterexample:
  "createSitePropsFromUpdateSite (JRef 1) (world_of location_update_heap) =
     Inr (JRef 3, (world_of location_update_heap)
        \<lparr>ticks := 2,
          heap := location_update_heap @
            [[(''title'', JStr []), (''customTitle'', JStr ''https://jisho.org''),
              (''lastAccessedTime'', JNum 1480000000000), (''creationTime'', JNum 1480000000001)],
             [(''title'', JStr []), (''customTitle'', JStr ''https://jisho.org''),
              (''lastAccessedTime'', JNum 1480000000000), (''creationTime'', JNum 1480000000001),
              (''location'', JStr ''https://jisho.org'')]]\<rparr>)
   \<and> JNum 1480000000000 \<noteq> JNum 1480000000001"
  by (simp add: location_update_heap_def world_of_def createSitePropsFromUpdateSite_def
        heap_op_defs proto_actions_defs)



















lemma kept_refl: "kept_except A h h"
  by (simp add: kept_except_def)

lemma kept_append: "kept_except A h (h @ objs)"
  by (simp add: kept_except_def heap_obj_def nth_append)

lemma kept_trans:
  "kept_except A h1 h2 \<Longrightarrow> kept_except B h2 h3 \<Longrightarrow> \<forall>x\<in>B. x \<in> A \<or> length h1 \<le> x
     \<Longrightarrow> kept_except A h1 h3"
  unfolding kept_except_def by (metis le_trans not_less order.strict_trans2)

lemma kept_assign_from: "kept_except {t} h (assign_from t h src)"
  by (simp add: kept_except_def assign_from_def heap_obj_def)

lemma kept_assign_all: "kept_except {t} h (foldl (assign_from t) h srcs)"
proof (induction srcs arbitrary: h)
  case Nil
  show ?case by (simp add: kept_refl)
next
  case (Cons src srcs)
  have "kept_except {t} h (foldl (assign_from t) (assign_from t h src) srcs)"
    by (rule kept_trans [OF kept_assign_from Cons.IH]) simp
  then show ?case by simp
qed

text \<open>\<open>Object.assign\<close> into an object created after \<open>h\<close> was the heap keeps all of \<open>h\<close>.\<close>

lemma kept_object_assign_fresh:
  assumes "object_assign (JRef t) srcs w = Inr (v, w')" and "kept_except {} h (heap w)"
    and "length h \<le> t"
  shows "kept_except {} h (heap w')"
proof -
  from assms(1) have "heap w' = foldl (assign_from t) (heap w) srcs"
    by auto
  with kept_trans [OF assms(2) kept_assign_all [of t "heap w" srcs]] assms(3)
  show ?thesis by simp
qed

lemma kept_createSiteProps:
  assumes "createSitePropsFromUpdateSite site w = Inr (v, w')"
  shows "kept_except {} (heap w) (heap w')"
proof -
  from assms obtain location where
    "object_assign (JRef (Suc (length (heap w))))
       [JRef (length (heap w)), site]
       (w\<lparr>ticks := Suc (Suc (ticks w)),
          heap := heap w @
            [[(''title'', JStr []), (''customTitle'', location),
              (''lastAccessedTime'', JNum (clock w (ticks w))),
              (''creationTime'', JNum (clock w (Suc (ticks w))))], []]\<rparr>) = Inr (v, w')"
    by (auto simp: createSitePropsFromUpdateSite_def bind_res_def alloc_def Date_now_def
             split: sum.splits)
  from kept_object_assign_fresh [OF this, of "heap w"] show ?thesis
    by (simp add: kept_append)
qed

lemma kept_mapUpdateToCreate_bookmark:
  assumes "mapUpdateToCreate_bookmark bookmark w = Inr (v, w')"
  shows "kept_except {} (heap w) (heap w')"
proof -
  obtain folderId where folderId: "get_prop (heap w) bookmark ''folderId'' = Inr folderId"
    using assms by (auto simp: mapUpdateToCreate_bookmark_def bind_res_def split: sum.splits)
  show ?thesis
  proof (cases "truthy folderId \<and> js_gt folderId 0")
    case True
    with assms folderId
    have "object_assign (JRef (length (heap w))) [bookmark]
            (w\<lparr>heap := heap w @ [[(''isFolder'', JBool True)]]\<rparr>) = Inr (v, w')"
      by (auto simp: mapUpdateToCreate_bookmark_def bind_res_def alloc_def)
    from kept_object_assign_fresh [OF this, of "heap w"] show ?thesis
      by (simp add: kept_append)
  next
    case False
    let ?w1 = "w\<lparr>heap := heap w @ [[(''isFolder'', JBool False)]]\<rparr>"
    from False assms folderId obtain bookmarkSite site w2 where
      site: "createSitePropsFromUpdateSite bookmarkSite ?w1 = Inr (site, w2)"
      and last: "object_assign (JRef (length (heap w2)))
              [JRef (length (heap w)), bookmark, JRef (Suc (length (heap w2)))]
              (w2\<lparr>heap := heap w2 @ [[], [(''site'', site)]]\<rparr>) = Inr (v, w')"
      by (auto simp: mapUpdateToCreate_bookmark_def bind_res_def alloc_def split: sum.splits)
    have step1: "kept_except {} (heap w) (heap ?w1)"
      by (simp add: kept_append)
    have step2: "kept_except {} (heap w) (heap w2)"
      by (rule kept_trans [OF step1 kept_createSiteProps [OF site]]) simp
    have step3: "kept_except {} (heap w) (heap w2 @ [[], [(''site'', site)]])"
      by (rule kept_trans [OF step2 kept_append [of "{}"]]) simp
    from step2 have "length (heap w) \<le> length (heap w2)"
      by (simp add: kept_except_def)
    from kept_object_assign_fresh [OF last, of "heap w"] step3 this show ?thesis
      by simp
  qed
qed

text \<open>The function returned by \<open>CreateFromUpdate\<close> changes no object but the record, when
  the mapping changes none.\<close>

lemma kept_CreateFromUpdate:
  assumes "CreateFromUpdate type isValidRecord mapUpdateToCreate (JRef a) w = Inr (v, w')"
    and mapping: "\<And>p x w1. mapUpdateToCreate p w = Inr (x, w1) \<Longrightarrow> kept_except {} (heap w) (heap w1)"
  shows "kept_except {a} (heap w) (heap w')"
proof (cases "v = JNull \<and> w' = w")
  case True
  then show ?thesis by (simp add: kept_refl)
next
  case False
  with assms(1) obtain typeProps resolved w1 where
    mapped: "mapUpdateToCreate typeProps w = Inr (resolved, w1)"
    and last: "object_assign (JRef a) [JRef (length (heap w1))]
                 (w1\<lparr>heap := heap w1 @ [[(''action'', proto_actions_CREATE), (type, resolved)]]\<rparr>)
               = Inr (v, w')"
    by (auto simp: CreateFromUpdate_def bind_res_def alloc_def split: sum.splits if_splits)
  from last have w': "heap w' = foldl (assign_from a)
      (heap w1 @ [[(''action'', proto_actions_CREATE), (type, resolved)]]) [JRef (length (heap w1))]"
    by auto
  have "kept_except {} (heap w) (heap w1 @ [[(''action'', proto_actions_CREATE), (type, resolved)]])"
    by (rule kept_trans [OF mapping [OF mapped] kept_append [of "{}"]]) simp
  then have "kept_except {a} (heap w) (heap w1 @ [[(''action'', proto_actions_CREATE), (type, resolved)]])"
    by (simp add: kept_except_def)
  from kept_trans [OF this kept_assign_all [of a _ "[JRef (length (heap w1))]"]] w'
  show ?thesis by simp
qed

text \<open>
  What \<open>resolve\<close> does keep: whenever it returns, every object of the heap other than the
  record itself is as it was, the existing object included when it is another object.
\<close>

lemma resolve_keeps_other_objects:
  assumes "resolve valueEquals (JRef a) existingObject w = Inr (v, w')"
  shows "kept_except {a} (heap w) (heap w')"
proof (cases "heap w' = heap w")
  case True
  then show ?thesis by (simp add: kept_refl)
next
  case False
  with assms obtain created w1 where created: "createFromUpdate (JRef a) w = Inr (created, w1)"
    and w1: "heap w' = heap w1"
    by (auto simp: resolve_def nullIgnore_def console_log_def bind_res_def
             split: sum.splits if_splits)
  from created False w1
  consider "createFromUpdateBookmark (JRef a) w = Inr (created, w1)"
    | "createFromUpdateHistorySite (JRef a) w = Inr (created, w1)"
    | "createFromUpdateSiteSetting (JRef a) w = Inr (created, w1)"
    by (auto simp: createFromUpdate_def console_log_def bind_res_def split: sum.splits if_splits)
  then have "kept_except {a} (heap w) (heap w1)"
  proof cases
    case 1
    then show ?thesis
      unfolding createFromUpdateBookmark_def
      by (rule kept_CreateFromUpdate) (rule kept_mapUpdateToCreate_bookmark)
  next
    case 2
    then show ?thesis
      unfolding createFromUpdateHistorySite_def
      by (rule kept_CreateFromUpdate) (rule kept_createSiteProps)
  next
    case 3
    then show ?thesis
      unfolding createFromUpdateSiteSetting_def
      by (rule kept_CreateFromUpdate) (simp add: kept_refl)
  qed
  with w1 show ?thesis by simp
qed

text \<open>
  C6. The claim that \<open>resolve\<close> leaves its arguments unchanged does not hold of the
  synthesis path: \<open>CreateFromUpdate\<close> passes the record itself as the target of
  \<open>Object.assign\<close>. Resolving the update of a history site that carries a location, with
  no existing object, returns the record's own reference; before the call the object at
  that reference has the action UPDATE and the site at address 1, after the call it has
  the action CREATE and the new site at address 3.
\<close>

theorem resolve_synthesis_mutates_record:
  "heap_obj (heap (world_of location_update_heap)) 0 =
     [(''action'', proto_actions_UPDATE), (''objectId'', JStr ''id-2''),
      (''objectData'', JStr ''historySite''), (''historySite'', JRef 1)]
   \<and> (case resolve same_value (JRef 0) JUndefined (world_of location_update_heap) of
         Inl e \<Rightarrow> False
       | Inr (resolved, w') \<Rightarrow>
           resolved = JRef 0
           \<and> heap_obj (heap w') 0 =
               [(''action'', proto_actions_CREATE), (''objectId'', JStr ''id-2''),
                (''objectData'', JStr ''historySite''), (''historySite'', JRef 3)])"
  by (simp add: location_update_heap_def world_of_def resolve_def nullIgnore_def
        synthesis_defs heap_op_defs proto_actions_defs)

section \<open>Properties of the transport\<close>











lemma foldl_append_each: "foldl (\<lambda>fd key. fd @ [f key]) acc ks = acc @ map f ks"
  by (induction ks arbitrary: acc) auto

lemma fields_of_distinct_keys:
  "distinct (map fst pd) \<Longrightarrow>
   map (\<lambda>key. (key, FormString (case map_of pd key of Some v \<Rightarrow> v | None \<Rightarrow> d))) (map fst pd)
     = map (\<lambda>(k, v). (k, FormString v)) pd"
proof (induction pd)
  case Nil
  then show ?case by simp
next
  case (Cons p pd)
  obtain k v where p: "p = (k, v)"
    by (cases p)
  from Cons.prems p have fresh: "k \<notin> fst ` set pd" and rest: "distinct (map fst pd)"
    by auto
  have "map (\<lambda>key. (key, FormString (case map_of (p # pd) key of Some v \<Rightarrow> v | None \<Rightarrow> d))) (map fst pd)
          = map (\<lambda>key. (key, FormString (case map_of pd key of Some v \<Rightarrow> v | None \<Rightarrow> d))) (map fst pd)"
    using fresh p by (intro map_cong) auto
  with Cons.IH [OF rest] p show ?case
    by simp
qed

lemma s3PostFormData_upload_form:
  assumes "distinct (Object_keys (postData ru))"
  shows "s3PostFormData ru key = upload_form ru key"
proof -
  from assms have d: "distinct (map fst (postData ru))"
    by (simp add: Object_keys_def)
  have "s3PostFormData ru key =
          ([] @ [(''key'', FormString key)])
          @ map (\<lambda>key. (key, FormString (case map_of (postData ru) key of
                                              Some v \<Rightarrow> v | None \<Rightarrow> ''undefined'')))
                (map fst (postData ru))
          @ [(''file'', FormBytes [])]"
    unfolding s3PostFormData_def Let_def Object_keys_def foldl_append_each by simp
  also have "\<dots> = upload_form ru key"
    unfolding fields_of_distinct_keys [OF d] by (simp add: upload_form_def)
  finally show ?thesis .
qed

lemma put_requests_upload_form:
  assumes "distinct (Object_keys (postData ru))"
  shows "put_requests ru s3Keys =
           map (\<lambda>key. \<lparr>url = s3PostEndpoint ru, http_method = ''POST'',
                        body = upload_form ru key\<rparr>) s3Keys"
  using assms by (simp add: put_requests_def s3PostFormData_upload_form)

lemma fetch_all_recording:
  "snd (snd (fetch_all (recording fetch) rs (n, sent))) = sent @ rs"
proof (induction rs arbitrary: n sent)
  case Nil
  show ?case by simp
next
  case (Cons r rs)
  obtain x n1 where first: "fetch r n = (x, n1)"
    by (cases "fetch r n")
  obtain xs ns where rest: "fetch_all (recording fetch) rs (n1, sent @ [r]) = (xs, ns)"
    by (cases "fetch_all (recording fetch) rs (n1, sent @ [r])")
  from Cons.IH [of n1 "sent @ [r]"] rest have "snd ns = sent @ r # rs"
    by simp
  moreover from first have "recording fetch r (n, sent) = (x, (n1, sent @ [r]))"
    by (simp add: recording_def)
  ultimately show ?case
    using rest by simp
qed

text \<open>One attempt of \<open>put\<close> asks for the uploads of \<open>put_requests\<close>, built from the
  credentials held at that moment, and leaves the credentials alone.\<close>

lemma put_attempt_recording:
  assumes "put_attempt (recording fetch) s3Keys w = (r, w')"
  shows "uploads w' = uploads w @ put_requests (this w) s3Keys \<and> this w' = this w"
proof -
  obtain answers ns where
    all: "fetch_all (recording fetch) (put_requests (this w) s3Keys) (network w) = (answers, ns)"
    by (cases "fetch_all (recording fetch) (put_requests (this w) s3Keys) (network w)")
  from fetch_all_recording [of fetch "put_requests (this w) s3Keys" "fst (network w)" "snd (network w)"] all
  have "snd ns = snd (network w) @ put_requests (this w) s3Keys"
    by simp
  moreover from assms all have "w' = w\<lparr>network := ns\<rparr>"
    by (simp add: put_attempt_def)
  ultimately show ?thesis
    by (simp add: uploads_def)
qed

text \<open>Where a call of \<open>withRetry\<close> with the default budget leaves the world: after the
  first attempt, or after a failed refresh, or after the second attempt that follows a
  successful refresh.\<close>

lemma withRetry_default_world:
  assumes "withRetry myFun refresh 1 None w = (out, w')"
  shows "(\<exists>r. myFun w = (r, w'))
       \<or> (\<exists>e w1 x. myFun w = (Inl e, w1) \<and> refresh w1 = (Inl x, w'))
       \<or> (\<exists>e w1 u w2 r. myFun w = (Inl e, w1) \<and> refresh w1 = (Inr u, w2) \<and> myFun w2 = (r, w'))"
proof -
  obtain r1 w1 where first: "myFun w = (r1, w1)"
    by (cases "myFun w")
  show ?thesis
  proof (cases r1)
    case (Inr v)
    with assms first show ?thesis
      by (simp add: withRetry.simps [of myFun refresh 1])
  next
    case (Inl e)
    show ?thesis
    proof (cases "with_response_body e")
      case None
      with assms first Inl show ?thesis
        by (simp add: withRetry.simps [of myFun refresh 1])
    next
      case (Some e')
      let ?second = "withRetry myFun refresh 0 (Some e') w1"
      from assms first Inl Some
      have outer: "(case ?second of (Thrown x, w3) \<Rightarrow> (Rejected x, w3) | settled \<Rightarrow> settled) = (out, w')"
        by (simp add: withRetry.simps [of myFun refresh 1])
      then obtain o2 where second: "?second = (o2, w')"
        by (cases ?second; cases "fst ?second") (auto split: outcome.splits)
      show ?thesis
      proof (cases "isExpiredCredentialError e'")
        case False
        with second have "w' = w1"
          by (simp add: withRetry.simps [of myFun refresh 0])
        with first Inl show ?thesis by simp
      next
        case True
        obtain x w2 where refreshed: "refresh w1 = (x, w2)"
          by (cases "refresh w1")
        show ?thesis
        proof (cases x)
          case (Inl err)
          with second True refreshed have "w' = w2"
            by (simp add: withRetry.simps [of myFun refresh 0])
          with first \<open>r1 = Inl e\<close> refreshed Inl show ?thesis by simp
        next
          case (Inr u)
          obtain r2 w3 where again: "myFun w2 = (r2, w3)"
            by (cases "myFun w2")
          have "w' = w3"
          proof (cases r2)
            case (Inr v)
            with second True refreshed \<open>x = Inr u\<close> again show ?thesis
              by (simp add: withRetry.simps [of myFun refresh 0])
          next
            case (Inl e2)
            show ?thesis
            proof (cases "with_response_body e2")
              case None
              with second True refreshed \<open>x = Inr u\<close> again Inl show ?thesis
                by (simp add: withRetry.simps [of myFun refresh 0])
            next
              case (Some e2')
              have "withRetry myFun refresh (- 1) (Some e2') w3 = (Thrown (Some e2'), w3)"
                by (simp add: withRetry.simps [of myFun refresh "- 1"])
              with second True refreshed \<open>x = Inr u\<close> again Inl Some show ?thesis
                by (simp add: withRetry.simps [of myFun refresh 0])
            qed
          qed
          with first \<open>r1 = Inl e\<close> refreshed Inr again show ?thesis by blast
        qed
      qed
    qed
  qed
qed

text \<open>
  C9, as amended. Every form POST of \<open>put\<close> is built by \<open>s3PostFormData\<close> from a chunk's
  key and the credentials held when the attempt is made: the request is a POST to the
  upload endpoint whose form holds a \<open>key\<close> field with the storage key, then the form
  fields of the credential bundle, then a \<open>file\<close> field with an empty byte array. On any
  network, with any refresh that itself uploads nothing, the uploads \<open>put\<close> asks for are
  these requests for every key of the record, once with the credentials it started with
  and, when the first attempt fails and the credentials are refreshed, once more with the
  refreshed credentials.
\<close>

theorem put_upload_forms:
  assumes "\<forall>v. uploads (snd (refresh v)) = uploads v"
  shows "(\<forall>ru. distinct (Object_keys (postData ru)) \<longrightarrow>
            put_requests ru s3Keys =
              map (\<lambda>key. \<lparr>url = s3PostEndpoint ru, http_method = ''POST'',
                           body = (''key'', FormString key)
                                  # map (\<lambda>(k, v). (k, FormString v)) (postData ru)
                                  @ [(''file'', FormBytes [])]\<rparr>) s3Keys)
       \<and> (\<exists>out w'. put encodeDataToS3KeyArray (recording fetch) refresh category record w = (out, w')
             \<and> (uploads w' = uploads w
                    @ put_requests (this w)
                        (encodeDataToS3KeyArray (fst (currentRecordPrefix category w)) record)
                 \<or> (\<exists>w1 u w2. refresh w1 = (Inr u, w2)
                       \<and> uploads w' = uploads w
                            @ put_requests (this w)
                                (encodeDataToS3KeyArray (fst (currentRecordPrefix category w)) record)
                            @ put_requests (this w2)
                                (encodeDataToS3KeyArray (fst (currentRecordPrefix category w)) record))))"
proof
  show "\<forall>ru. distinct (Object_keys (postData ru)) \<longrightarrow>
          put_requests ru s3Keys =
            map (\<lambda>key. \<lparr>url = s3PostEndpoint ru, http_method = ''POST'',
                         body = (''key'', FormString key)
                                # map (\<lambda>(k, v). (k, FormString v)) (postData ru)
                                @ [(''file'', FormBytes [])]\<rparr>) s3Keys"
    using put_requests_upload_form by (simp add: upload_form_def)
next
  obtain s3Prefix wp where prefix: "currentRecordPrefix category w = (s3Prefix, wp)"
    by (cases "currentRecordPrefix category w")
  then have same: "this wp = this w" "uploads wp = uploads w"
    by (auto simp: currentRecordPrefix_def getTime_def uploads_def)
  let ?keys = "encodeDataToS3KeyArray s3Prefix record"
  let ?attempt = "put_attempt (recording fetch) ?keys"
  obtain out w' where result: "withRetry ?attempt refresh 1 None wp = (out, w')"
    by (cases "withRetry ?attempt refresh 1 None wp")
  with prefix have put: "put encodeDataToS3KeyArray (recording fetch) refresh category record w = (out, w')"
    by (simp add: put_def)
  from withRetry_default_world [OF result]
  consider (one) r where "?attempt wp = (r, w')"
    | (stuck) e w1 x where "?attempt wp = (Inl e, w1)" "refresh w1 = (Inl x, w')"
    | (two) e w1 u w2 r where "?attempt wp = (Inl e, w1)" "refresh w1 = (Inr u, w2)" "?attempt w2 = (r, w')"
    by blast
  then have "uploads w' = uploads w @ put_requests (this w) ?keys
      \<or> (\<exists>w1 u w2. refresh w1 = (Inr u, w2)
            \<and> uploads w' = uploads w @ put_requests (this w) ?keys @ put_requests (this w2) ?keys)"
  proof cases
    case one
    from put_attempt_recording [OF one] same show ?thesis
      by simp
  next
    case stuck
    from assms stuck(2) have "uploads w' = uploads w1"
      by (metis snd_conv)
    with put_attempt_recording [OF stuck(1)] same show ?thesis
      by simp
  next
    case two
    from assms two(2) have "uploads w2 = uploads w1"
      by (metis snd_conv)
    with put_attempt_recording [OF two(1)] put_attempt_recording [OF two(3)] same
    have "uploads w' = uploads w @ put_requests (this w) ?keys @ put_requests (this w2) ?keys"
      by simp
    with two(2) show ?thesis
      by blast
  qed
  with put prefix show "\<exists>out w'. put encodeDataToS3KeyArray (recording fetch) refresh category record w = (out, w')
      \<and> (uploads w' = uploads w
             @ put_requests (this w)
                 (encodeDataToS3KeyArray (fst (currentRecordPrefix category w)) record)
          \<or> (\<exists>w1 u w2. refresh w1 = (Inr u, w2)
                \<and> uploads w' = uploads w
                     @ put_requests (this w)
                         (encodeDataToS3KeyArray (fst (currentRecordPrefix category w)) record)
                     @ put_requests (this w2)
                         (encodeDataToS3KeyArray (fst (currentRecordPrefix category w)) record)))"
    by simp
qed

lemmas example_transport_simps =
  example_transport_def example_util_def one_key_def upload_form_def Object_keys_def
  currentRecordPrefix_def getTime_def show_int_def show_nat.simps digit_char_def

theorem put_upload_forms_witness:
  "put_requests example_util [''0/dXNlcg==/0/1480000000/AQID''] =
     [\<lparr>url = ''https://bucket.s3.dualstack.us-west-2.amazonaws.com'', http_method = ''POST'',
       body = [(''key'', FormString ''0/dXNlcg==/0/1480000000/AQID''),
               (''acl'', FormString ''private''), (''policy'', FormString ''eyJleHAiOjB9''),
               (''file'', FormBytes [])]\<rparr>]
   \<and> (\<exists>out w'. put (one_key ''AQID'') (recording expired_then_accept) refresh_policy ''0'' [1, 2, 3]
                   recording_transport = (out, w')
         \<and> (uploads w' = put_requests example_util [''0/dXNlcg==/0/1480000000/AQID'']
             \<or> (\<exists>(w1 :: (nat \<times> request list) transport) u w2. refresh_policy w1 = (Inr u, w2)
                   \<and> uploads w' = put_requests example_util [''0/dXNlcg==/0/1480000000/AQID'']
                        @ put_requests (this w2) [''0/dXNlcg==/0/1480000000/AQID''])))
   \<and> uploads (snd (put (one_key ''AQID'') (recording expired_then_accept) refresh_policy ''0'' [1, 2, 3]
                       recording_transport)) =
       [\<lparr>url = ''https://bucket.s3.dualstack.us-west-2.amazonaws.com'', http_method = ''POST'',
         body = [(''key'', FormString ''0/dXNlcg==/0/1480000000/AQID''),
                 (''acl'', FormString ''private''), (''policy'', FormString ''eyJleHAiOjB9''),
                 (''file'', FormBytes [])]\<rparr>,
        \<lparr>url = ''https://bucket.s3.dualstack.us-west-2.amazonaws.com'', http_method = ''POST'',
         body = [(''key'', FormString ''0/dXNlcg==/0/1480000000/AQID''),
                 (''acl'', FormString ''private''), (''policy'', FormString ''eyJleHAiOjF9''),
                 (''file'', FormBytes [])]\<rparr>]"
proof -
  have quiet: "\<forall>v :: (nat \<times> request list) transport. uploads (snd (refresh_policy v)) = uploads v"
    by (simp add: refresh_policy_def uploads_def)
  note inst = put_upload_forms [OF quiet, of "[''0/dXNlcg==/0/1480000000/AQID'']"
      "one_key ''AQID''" expired_then_accept "''0''" "[1, 2, 3]" recording_transport]
  have d: "distinct (Object_keys (postData example_util))"
    by (simp add: example_util_def Object_keys_def)
  have e: "s3PostEndpoint example_util = ''https://bucket.s3.dualstack.us-west-2.amazonaws.com''"
    "postData example_util = [(''acl'', ''private''), (''policy'', ''eyJleHAiOjB9'')]"
    by (simp_all add: example_util_def)
  from inst [THEN conjunct1, rule_format, OF d]
  have first: "put_requests example_util [''0/dXNlcg==/0/1480000000/AQID''] =
     [\<lparr>url = ''https://bucket.s3.dualstack.us-west-2.amazonaws.com'', http_method = ''POST'',
       body = [(''key'', FormString ''0/dXNlcg==/0/1480000000/AQID''),
               (''acl'', FormString ''private''), (''policy'', FormString ''eyJleHAiOjB9''),
               (''file'', FormBytes [])]\<rparr>]"
    unfolding e by simp
  have t: "this recording_transport = example_util" "uploads recording_transport = []"
    by (simp_all add: recording_transport_def uploads_def)
  have p: "fst (currentRecordPrefix ''0'' recording_transport) = ''0/dXNlcg==/0/1480000000/''"
    by (simp add: recording_transport_def example_transport_simps)
  have k: "one_key ''AQID'' ''0/dXNlcg==/0/1480000000/'' [1, 2, 3] = [''0/dXNlcg==/0/1480000000/AQID'']"
    by (simp add: one_key_def)
  from inst [THEN conjunct2]
  have second: "\<exists>out w'. put (one_key ''AQID'') (recording expired_then_accept) refresh_policy ''0'' [1, 2, 3]
                   recording_transport = (out, w')
         \<and> (uploads w' = put_requests example_util [''0/dXNlcg==/0/1480000000/AQID'']
             \<or> (\<exists>(w1 :: (nat \<times> request list) transport) u w2. refresh_policy w1 = (Inr u, w2)
                   \<and> uploads w' = put_requests example_util [''0/dXNlcg==/0/1480000000/AQID'']
                        @ put_requests (this w2) [''0/dXNlcg==/0/1480000000/AQID'']))"
    unfolding t p k by simp
  have third: "uploads (snd (put (one_key ''AQID'') (recording expired_then_accept) refresh_policy ''0'' [1, 2, 3]
                       recording_transport)) =
       [\<lparr>url = ''https://bucket.s3.dualstack.us-west-2.amazonaws.com'', http_method = ''POST'',
         body = [(''key'', FormString ''0/dXNlcg==/0/1480000000/AQID''),
                 (''acl'', FormString ''private''), (''policy'', FormString ''eyJleHAiOjB9''),
                 (''file'', FormBytes [])]\<rparr>,
        \<lparr>url = ''https://bucket.s3.dualstack.us-west-2.amazonaws.com'', http_method = ''POST'',
         body = [(''key'', FormString ''0/dXNlcg==/0/1480000000/AQID''),
                 (''acl'', FormString ''private''), (''policy'', FormString ''eyJleHAiOjF9''),
                 (''file'', FormBytes [])]\<rparr>]"
    by (simp add: put_def put_attempt_def put_requests_def s3PostFormData_def recording_def
          expired_then_accept_def refresh_policy_def recording_transport_def uploads_def
          checkFetchStatus_def withRetry.simps with_response_body_def
          isExpiredCredentialError_def EXPIRED_CREDENTIAL_ERRORS_def example_transport_simps)
  from first second third show ?thesis
    by (intro conjI)
qed

text \<open>
  The claim as stated fails: \<open>put\<close> of the three bytes 1, 2, 3, which make up the single
  chunk, sends one form whose \<open>file\<close> field is the empty byte array, not the chunk's
  bytes.
\<close>

theorem put_file_field_counterexample:
  "map (\<lambda>r. map_of (body r) ''file'')
       (network (snd (put (one_key ''AQID'') accept_all refresh_same ''0'' [1, 2, 3] example_transport)))
     = [Some (FormBytes [])]
   \<and> FormBytes [] \<noteq> FormBytes [1, 2, 3]"
  by (simp add: put_def put_attempt_def put_requests_def s3PostFormData_def accept_all_def
        checkFetchStatus_def withRetry.simps example_transport_simps)

end
